theory Spec2Isabelle
  imports Main
begin

section \<open>JavaScript strings\<close>

text \<open>
  A JavaScript string is a sequence of UTF-16 code units. A code unit is modelled as an
  integer, a string as a list of them. ASCII literals are written with \<open>js\<close>;
  Cyrillic and other non-ASCII literals are written as their code units.
\<close>

type_synonym jschar = int
type_synonym jsstring = "jschar list"

definition js :: "string \<Rightarrow> jsstring" where
  "js s = map of_char s"

text \<open>\<open>s[i]\<close>: the code unit at index \<open>i\<close>, \<open>undefined\<close> (here \<open>None\<close>) out of range.\<close>

definition at :: "jsstring \<Rightarrow> nat \<Rightarrow> jschar option" where
  "at s i = (if i < length s then Some (s ! i) else None)"

text \<open>\<open>s.slice(i, j)\<close> for non-negative \<open>i\<close>, \<open>j\<close>; both ends are clamped to the length.\<close>

definition slice :: "jsstring \<Rightarrow> nat \<Rightarrow> nat \<Rightarrow> jsstring" where
  "slice s i j = take (j - i) (drop i s)"

text \<open>\<open>s.replace(/c/g, t)\<close> for a single literal character \<open>c\<close>.\<close>

definition replaceChar :: "jschar \<Rightarrow> jsstring \<Rightarrow> jsstring \<Rightarrow> jsstring" where
  "replaceChar c t s = concat (map (\<lambda>x. if x = c then t else [x]) s)"

definition c_tab :: jschar where "c_tab = 9"
definition c_nl :: jschar where "c_nl = 10"
definition c_cr :: jschar where "c_cr = 13"
definition c_space :: jschar where "c_space = 32"
definition c_dquote :: jschar where "c_dquote = 34"
definition c_hash :: jschar where "c_hash = 35"
definition c_amp :: jschar where "c_amp = 38"
definition c_squote :: jschar where "c_squote = 39"
definition c_lparen :: jschar where "c_lparen = 40"
definition c_rparen :: jschar where "c_rparen = 41"
definition c_plus :: jschar where "c_plus = 43"
definition c_minus :: jschar where "c_minus = 45"
definition c_dot :: jschar where "c_dot = 46"
definition c_slash :: jschar where "c_slash = 47"
definition c_lt :: jschar where "c_lt = 60"
definition c_eq :: jschar where "c_eq = 61"
definition c_gt :: jschar where "c_gt = 62"

lemmas c_defs = c_tab_def c_nl_def c_cr_def c_space_def c_dquote_def c_hash_def c_amp_def
  c_squote_def c_lparen_def c_rparen_def c_plus_def c_minus_def c_dot_def c_slash_def
  c_lt_def c_eq_def c_gt_def

definition isDigit :: "jschar \<Rightarrow> bool" where
  "isDigit c \<longleftrightarrow> 48 \<le> c \<and> c \<le> 57"

definition isLatin :: "jschar \<Rightarrow> bool" where
  "isLatin c \<longleftrightarrow> (65 \<le> c \<and> c \<le> 90) \<or> (97 \<le> c \<and> c \<le> 122)"

text \<open>\<open>while (j < len && P(code[j])) j++\<close>, returning the final \<open>j\<close>.\<close>

function scan_while :: "(jschar \<Rightarrow> bool) \<Rightarrow> jsstring \<Rightarrow> nat \<Rightarrow> nat" where
  "scan_while P code j =
     (if j < length code \<and> P (code ! j) then scan_while P code (j + 1) else j)"
  by pat_completeness auto
termination
  by (relation "measure (\<lambda>(P, code, j). length code - j)") auto

declare scan_while.simps [simp del]

text \<open>
  \<open>toLowerCase\<close> and \<open>toUpperCase\<close>, on the basic Latin letters and the Cyrillic
  letters U+0410..U+044F, U+0401, U+0451: the alphabets of the tokenizers' words and of
  every literal the source compares case-insensitively. Other characters are left as
  they are.
\<close>

definition lowerChar :: "jschar \<Rightarrow> jschar" where
  "lowerChar c = (if 65 \<le> c \<and> c \<le> 90 then c + 32
                  else if 1040 \<le> c \<and> c \<le> 1071 then c + 32
                  else if c = 1025 then 1105 else c)"

definition upperChar :: "jschar \<Rightarrow> jschar" where
  "upperChar c = (if 97 \<le> c \<and> c \<le> 122 then c - 32
                  else if 1072 \<le> c \<and> c \<le> 1103 then c - 32
                  else if c = 1105 then 1025 else c)"

definition toLowerCase :: "jsstring \<Rightarrow> jsstring" where
  "toLowerCase s = map lowerChar s"

definition toUpperCase :: "jsstring \<Rightarrow> jsstring" where
  "toUpperCase s = map upperChar s"

text \<open>The class \<open>\s\<close> of JavaScript regular expressions: white space and line terminators.\<close>

definition isSpaceJS :: "jschar \<Rightarrow> bool" where
  "isSpaceJS c \<longleftrightarrow> (9 \<le> c \<and> c \<le> 13) \<or> c = 32 \<or> c = 160 \<or> c = 5760
     \<or> (8192 \<le> c \<and> c \<le> 8202) \<or> c = 8232 \<or> c = 8233 \<or> c = 8239 \<or> c = 8287
     \<or> c = 12288 \<or> c = 65279"

text \<open>\<open>s.indexOf(needle, from)\<close>, with \<open>None\<close> for \<open>-1\<close>.\<close>

function indexOf :: "jsstring \<Rightarrow> jsstring \<Rightarrow> nat \<Rightarrow> nat option" where
  "indexOf s needle from =
     (if from + length needle \<le> length s then
        (if take (length needle) (drop from s) = needle then Some from
         else indexOf s needle (from + 1))
      else None)"
  by pat_completeness auto
termination
  by (relation "measure (\<lambda>(s, needle, from). length s + 1 - from)") auto

declare indexOf.simps [simp del]


text \<open>\<open>trim\<close>, \<open>trimEnd\<close>: white space and line terminators are stripped.\<close>

definition trimStart :: "jsstring \<Rightarrow> jsstring" where
  "trimStart s = dropWhile isSpaceJS s"

definition trimEnd :: "jsstring \<Rightarrow> jsstring" where
  "trimEnd s = rev (dropWhile isSpaceJS (rev s))"

definition trim :: "jsstring \<Rightarrow> jsstring" where
  "trim s = trimEnd (trimStart s)"

text \<open>\<open>s.split(c)\<close> for a separator of one character.\<close>

fun split_char :: "jschar \<Rightarrow> jsstring \<Rightarrow> jsstring list" where
  "split_char c [] = [[]]"
| "split_char c (x # xs) =
     (if x = c then [] # split_char c xs
      else (case split_char c xs of h # t \<Rightarrow> (x # h) # t | [] \<Rightarrow> [[x]]))"

text \<open>\<open>parts.join(sep)\<close>\<close>

fun join :: "jsstring \<Rightarrow> jsstring list \<Rightarrow> jsstring" where
  "join sep [] = []"
| "join sep [x] = x"
| "join sep (x # y # ys) = x @ sep @ join sep (y # ys)"

text \<open>The decimal digits of an index, as in \<open>"" + n\<close>.\<close>

function show_nat :: "nat \<Rightarrow> jsstring" where
  "show_nat n = (if n < 10 then [48 + int n] else show_nat (n div 10) @ [48 + int (n mod 10)])"
  by pat_completeness auto
termination
  by (relation "measure id") auto

declare show_nat.simps [simp del]

subsection \<open>Replacement patterns\<close>

text \<open>
  \<open>GetSubstitution\<close> of the language standard: the expansion of a replacement string,
  given the matched text, the whole string, the match position and the captures
  (\<open>None\<close>: a group that did not take part). \<open>$$\<close> is a dollar, \<open>$&\<close> the match,
  \<open>$`\<close> and \<open>$'\<close> the text before and after it, \<open>$n\<close> and \<open>$nn\<close> a capture when
  there is one with that number; any other \<open>$\<close> stands for itself.
\<close>

definition digit_val :: "jschar \<Rightarrow> nat" where
  "digit_val c = nat (c - 48)"

definition cap_text :: "jsstring option list \<Rightarrow> nat \<Rightarrow> jsstring" where
  "cap_text captures n = (case captures ! (n - 1) of None \<Rightarrow> [] | Some t \<Rightarrow> t)"

fun get_subst ::
  "jsstring \<Rightarrow> jsstring \<Rightarrow> nat \<Rightarrow> jsstring option list \<Rightarrow> jsstring \<Rightarrow> jsstring" where
  "get_subst m s p captures [] = []"
| "get_subst m s p captures [c] = [c]"
| "get_subst m s p captures (c # d # t) =
     (if c \<noteq> 36 then c # get_subst m s p captures (d # t)
      else if d = 36 then 36 # get_subst m s p captures t
      else if d = c_amp then m @ get_subst m s p captures t
      else if d = 96 then take p s @ get_subst m s p captures t
      else if d = c_squote then drop (p + length m) s @ get_subst m s p captures t
      else if isDigit d then
        (let two = (case t of e # _ \<Rightarrow> isDigit e | [] \<Rightarrow> False);
             idx2 = (case t of e # _ \<Rightarrow> 10 * digit_val d + digit_val e | [] \<Rightarrow> 0)
         in if two \<and> idx2 \<le> length captures then
              (if 1 \<le> idx2 then cap_text captures idx2 @ get_subst m s p captures (tl t)
               else c # d # hd t # get_subst m s p captures (tl t))
            else if 1 \<le> digit_val d \<and> digit_val d \<le> length captures then
              cap_text captures (digit_val d) @ get_subst m s p captures t
            else c # d # get_subst m s p captures t)
      else c # get_subst m s p captures (d # t))"

text \<open>
  \<open>s.replace(pattern, replacement)\<close> with a string pattern and a string replacement:
  the first occurrence of the pattern is replaced by the expansion of the replacement.
\<close>

definition replace_str :: "jsstring \<Rightarrow> jsstring \<Rightarrow> jsstring \<Rightarrow> jsstring" where
  "replace_str s pat repl =
     (case indexOf s pat 0 of
        None \<Rightarrow> s
      | Some a \<Rightarrow> take a s @ get_subst pat s a [] repl @ drop (a + length pat) s)"

section \<open>Regular expressions\<close>

text \<open>
  The regular expressions of the source are values of the datatype \<open>re\<close>; the matcher
  \<open>rm\<close> is a backtracking matcher that returns, for a start state, the list of all
  end states in the order in which backtracking would try them, so that the head of the
  list is the match JavaScript finds. A state is the index reached and the captures so
  far, each a triple of the group's number, its start and its end.

  A character class is a list of inclusive ranges, with a flag that is \<open>False\<close> for a
  negated class. \<open>Star True r\<close> is the greedy \<open>r*\<close>, \<open>Star False r\<close> the lazy \<open>r*?\<close>; as
  in JavaScript an iteration that matches the empty string is not taken. \<open>Ahead True r\<close>
  is \<open>(?=r)\<close>, \<open>Ahead False r\<close> is \<open>(?!r)\<close>, \<open>NotAfter rs\<close> is \<open>(?<![rs])\<close>, the only form
  of look-behind in the source.
\<close>

type_synonym ranges = "(jschar \<times> jschar) list"

definition in_ranges :: "jschar \<Rightarrow> ranges \<Rightarrow> bool" where
  "in_ranges c rs = list_ex (\<lambda>(lo, hi). lo \<le> c \<and> c \<le> hi) rs"

datatype re =
    Chr jschar
  | Cls bool ranges
  | Eps
  | Seq re re
  | Alt re re
  | Star bool re
  | Grp nat re
  | Bol
  | Eol
  | WordB
  | Ahead bool re
  | NotAfter ranges

record flags =
  ignoreCase :: bool
  multiline :: bool

definition F_none :: flags where "F_none = \<lparr>ignoreCase = False, multiline = False\<rparr>"
definition F_i :: flags where "F_i = \<lparr>ignoreCase = True, multiline = False\<rparr>"
definition F_m :: flags where "F_m = \<lparr>ignoreCase = False, multiline = True\<rparr>"

type_synonym caps = "(nat \<times> nat \<times> nat) list"
type_synonym mstate = "nat \<times> caps"

text \<open>
  Case-insensitive comparison goes through the upper-case form, as \<open>Canonicalize\<close> does
  for a regular expression without the \<open>u\<close> flag.
\<close>

definition char_eq :: "flags \<Rightarrow> jschar \<Rightarrow> jschar \<Rightarrow> bool" where
  "char_eq F a b = (if ignoreCase F then upperChar a = upperChar b else a = b)"

definition cls_has :: "flags \<Rightarrow> ranges \<Rightarrow> jschar \<Rightarrow> bool" where
  "cls_has F rs c =
     (if ignoreCase F
      then in_ranges c rs \<or> in_ranges (upperChar c) rs \<or> in_ranges (lowerChar c) rs
      else in_ranges c rs)"

definition isLineTerminator :: "jschar \<Rightarrow> bool" where
  "isLineTerminator c \<longleftrightarrow> c = 10 \<or> c = 13 \<or> c = 8232 \<or> c = 8233"

text \<open>The classes \<open>\w\<close>, \<open>\d\<close>, \<open>\s\<close> and the complement of \<open>.\<close>\<close>

definition rs_word :: ranges where
  "rs_word = [(97, 122), (65, 90), (48, 57), (95, 95)]"

definition rs_digit :: ranges where
  "rs_digit = [(48, 57)]"

definition rs_space :: ranges where
  "rs_space = [(9, 13), (32, 32), (160, 160), (5760, 5760), (8192, 8202), (8232, 8233),
     (8239, 8239), (8287, 8287), (12288, 12288), (65279, 65279)]"

definition rs_newline :: ranges where
  "rs_newline = [(10, 10), (13, 13), (8232, 8233)]"

definition word_at :: "jsstring \<Rightarrow> nat \<Rightarrow> bool" where
  "word_at s i \<longleftrightarrow> i < length s \<and> in_ranges (s ! i) rs_word"

function (sequential) rm :: "flags \<Rightarrow> jsstring \<Rightarrow> re \<Rightarrow> mstate \<Rightarrow> mstate list" where
  "rm F s (Chr c) (i, cs) =
     (if i < length s \<and> char_eq F (s ! i) c then [(i + 1, cs)] else [])"
| "rm F s (Cls pos rs) (i, cs) =
     (if i < length s \<and> cls_has F rs (s ! i) = pos then [(i + 1, cs)] else [])"
| "rm F s Eps st = [st]"
| "rm F s (Seq a b) st = concat (map (rm F s b) (rm F s a st))"
| "rm F s (Alt a b) st = rm F s a st @ rm F s b st"
| "rm F s (Star greedy r) (i, cs) =
     (let more = concat (map (\<lambda>(j, cs'). if i < j \<and> j \<le> length s
                                           then rm F s (Star greedy r) (j, cs') else [])
                             (rm F s r (i, cs)))
      in if greedy then more @ [(i, cs)] else (i, cs) # more)"
| "rm F s (Grp n r) (i, cs) = map (\<lambda>(j, cs'). (j, (n, i, j) # cs')) (rm F s r (i, cs))"
| "rm F s Bol (i, cs) =
     (if i = 0 \<or> (multiline F \<and> isLineTerminator (s ! (i - 1))) then [(i, cs)] else [])"
| "rm F s Eol (i, cs) =
     (if i = length s \<or> (multiline F \<and> i < length s \<and> isLineTerminator (s ! i))
      then [(i, cs)] else [])"
| "rm F s WordB (i, cs) =
     (if (0 < i \<and> word_at s (i - 1)) \<noteq> word_at s i then [(i, cs)] else [])"
| "rm F s (Ahead pos r) (i, cs) =
     (case rm F s r (i, cs) of
        [] \<Rightarrow> (if pos then [] else [(i, cs)])
      | (j, cs') # _ \<Rightarrow> (if pos then [(i, cs')] else []))"
| "rm F s (NotAfter rs) (i, cs) =
     (if 0 < i \<and> cls_has F rs (s ! (i - 1)) then [] else [(i, cs)])"
  by pat_completeness auto
termination
  by (relation "(\<lambda>(F, s, r, i, cs). size r) <*mlex*>
                  measure (\<lambda>(F, s, r, i, cs). length s - i)")
     (auto simp: wf_mlex mlex_less mlex_leq)

lemmas rm_Star = rm.simps(6)

declare rm.simps(6) [simp del]

text \<open>Helpers to write the regular expressions of the source.\<close>

definition lit :: "jsstring \<Rightarrow> re" where
  "lit s = foldr (\<lambda>c r. Seq (Chr c) r) s Eps"

fun seqs :: "re list \<Rightarrow> re" where
  "seqs [] = Eps"
| "seqs [r] = r"
| "seqs (r # rs) = Seq r (seqs rs)"

fun alts :: "re list \<Rightarrow> re" where
  "alts [] = Eps"
| "alts [r] = r"
| "alts (r # rs) = Alt r (alts rs)"

definition Plus :: "bool \<Rightarrow> re \<Rightarrow> re" where
  "Plus greedy r = Seq r (Star greedy r)"

definition Opt :: "re \<Rightarrow> re" where
  "Opt r = Alt r Eps"

definition Times :: "nat \<Rightarrow> re \<Rightarrow> re" where
  "Times n r = seqs (replicate n r)"

definition AnyChar :: re where
  "AnyChar = Cls False []"

definition Dot :: re where
  "Dot = Cls False rs_newline"

text \<open>The number of capture groups of an expression.\<close>

fun ngroups :: "re \<Rightarrow> nat" where
  "ngroups (Seq a b) = ngroups a + ngroups b"
| "ngroups (Alt a b) = ngroups a + ngroups b"
| "ngroups (Star g r) = ngroups r"
| "ngroups (Grp n r) = 1 + ngroups r"
| "ngroups (Ahead pos r) = ngroups r"
| "ngroups r = 0"

text \<open>
  A match: its start, its end and its captures. \<open>find_from\<close> is the search of
  \<open>RegExp.prototype.exec\<close> from index \<open>i\<close>: the first index at which the expression
  matches, with the match found there.
\<close>

type_synonym rmatch = "nat \<times> nat \<times> caps"

function find_from :: "flags \<Rightarrow> jsstring \<Rightarrow> re \<Rightarrow> nat \<Rightarrow> rmatch option" where
  "find_from F s r i =
     (if i \<le> length s then
        (case rm F s r (i, []) of
           [] \<Rightarrow> find_from F s r (i + 1)
         | (j, cs) # _ \<Rightarrow> Some (i, j, cs))
      else None)"
  by pat_completeness auto
termination
  by (relation "measure (\<lambda>(F, s, r, i). length s + 1 - i)") auto

declare find_from.simps [simp del]

text \<open>\<open>regex.test(s)\<close> and \<open>s.match(regex)\<close> for an expression without the \<open>g\<close> flag.\<close>

definition re_test :: "flags \<Rightarrow> re \<Rightarrow> jsstring \<Rightarrow> bool" where
  "re_test F r s \<longleftrightarrow> find_from F s r 0 \<noteq> None"

text \<open>
  The text of capture group \<open>n\<close> of a match (\<open>None\<close>: \<open>undefined\<close>), and the list of
  all captures of a match of \<open>r\<close>.
\<close>

definition group :: "jsstring \<Rightarrow> caps \<Rightarrow> nat \<Rightarrow> jsstring option" where
  "group s cs n = map_option (\<lambda>(a, b). slice s a b) (map_of cs n)"

definition group_text :: "jsstring \<Rightarrow> caps \<Rightarrow> nat \<Rightarrow> jsstring" where
  "group_text s cs n = (case group s cs n of None \<Rightarrow> [] | Some t \<Rightarrow> t)"

definition captures_of :: "jsstring \<Rightarrow> re \<Rightarrow> caps \<Rightarrow> jsstring option list" where
  "captures_of s r cs = map (group s cs) [1..<Suc (ngroups r)]"


lemma rm_bounds:
  "(j, cs') \<in> set (rm F s r (i, cs)) \<Longrightarrow> i \<le> j \<and> (i \<le> length s \<longrightarrow> j \<le> length s)"
proof (induction F s r "(i, cs)" arbitrary: i cs j cs' rule: rm.induct)
  case (4 F s a b)
  from "4.prems" obtain k ck where
    k: "(k, ck) \<in> set (rm F s a (i, cs))" and j: "(j, cs') \<in> set (rm F s b (k, ck))"
    by auto
  from "4.hyps"(1) [OF k] "4.hyps"(2) [OF k j] show ?case by auto
next
  case (6 F s greedy r i cs)
  from "6.prems" have "(j, cs') = (i, cs) \<or>
      (\<exists>k ck. (k, ck) \<in> set (rm F s r (i, cs)) \<and> i < k \<and> k \<le> length s
         \<and> (j, cs') \<in> set (rm F s (Star greedy r) (k, ck)))"
    by (subst (asm) rm_Star) (auto simp: Let_def split: if_splits)
  then consider "(j, cs') = (i, cs)"
    | k ck where "(k, ck) \<in> set (rm F s r (i, cs))" "i < k" "k \<le> length s"
        "(j, cs') \<in> set (rm F s (Star greedy r) (k, ck))"
    by blast
  then show ?case
  proof cases
    case 1
    then show ?thesis by simp
  next
    case 2
    from "6.hyps"(2) [OF 2(1) refl _ 2(4)] 2(2,3) show ?thesis by auto
  qed
next
  case (11 F s pos r i cs)
  then show ?case by (auto split: list.splits if_splits)
qed (auto split: if_splits)

lemma find_from_bounds:
  "find_from F s r i = Some (a, b, cs) \<Longrightarrow> i \<le> a \<and> a \<le> b \<and> b \<le> length s"
proof (induction F s r i rule: find_from.induct)
  case (1 F s r i)
  show ?case
  proof (cases "rm F s r (i, [])")
    case Nil
    with "1.prems" have le: "i \<le> length s" and "find_from F s r (i + 1) = Some (a, b, cs)"
      by (subst (asm) find_from.simps, simp split: if_splits)+
    with "1.IH" [OF le Nil] show ?thesis by simp
  next
    case (Cons st sts)
    with "1.prems" have le: "i \<le> length s" and "st = (b, cs)" and "a = i"
      by (subst (asm) find_from.simps, simp split: if_splits prod.splits)+
    with Cons have "(b, cs) \<in> set (rm F s r (i, []))" by simp
    from rm_bounds [OF this] le \<open>a = i\<close> show ?thesis by simp
  qed
qed

text \<open>A literal matches at \<open>i\<close> when the characters from \<open>i\<close> are its characters.\<close>

definition lit_at :: "flags \<Rightarrow> jsstring \<Rightarrow> nat \<Rightarrow> jsstring \<Rightarrow> bool" where
  "lit_at F s i w \<longleftrightarrow> list_all2 (char_eq F) (slice s i (i + length w)) w"

lemma lit_at_Nil: "lit_at F s i []"
  by (simp add: lit_at_def slice_def)

lemma lit_at_Cons:
  "lit_at F s i (c # w) \<longleftrightarrow> i < length s \<and> char_eq F (s ! i) c \<and> lit_at F s (Suc i) w"
proof (cases "i < length s")
  case True
  then have "slice s i (i + length (c # w)) = s ! i # slice s (Suc i) (Suc i + length w)"
    by (simp add: slice_def Cons_nth_drop_Suc [symmetric])
  with True show ?thesis by (simp add: lit_at_def)
next
  case False
  then have "slice s i (i + length (c # w)) = []" by (simp add: slice_def)
  with False show ?thesis by (simp add: lit_at_def)
qed

lemma rm_lit: "rm F s (lit w) (i, cs) = (if lit_at F s i w then [(i + length w, cs)] else [])"
proof (induction w arbitrary: i)
  case Nil
  then show ?case by (simp add: lit_def lit_at_Nil)
next
  case (Cons c w)
  have "lit (c # w) = Seq (Chr c) (lit w)" by (simp add: lit_def)
  then show ?case
    using Cons.IH [of "Suc i"] by (simp add: lit_at_Cons)
qed

lemma find_from_Bol_None:
  "0 < i \<Longrightarrow> \<not> multiline F \<Longrightarrow> find_from F s (Seq Bol X) i = None"
proof (induction F s "Seq Bol X" i rule: find_from.induct)
  case (1 F s i)
  then show ?case
    by (subst find_from.simps) auto
qed

lemma find_from_Bol:
  "\<not> multiline F \<Longrightarrow> find_from F s (Seq Bol X) 0 =
     (case rm F s X (0, []) of [] \<Rightarrow> None | (j, cs) # _ \<Rightarrow> Some (0, j, cs))"
  by (subst find_from.simps) (simp add: find_from_Bol_None split: list.splits)

text \<open>
  \<open>s.replace(regex, f)\<close> for an expression with the \<open>g\<close> flag, from index \<open>p\<close>. The
  callback \<open>f\<close> gets the match and a state that it may change, as the callbacks of the
  source push to arrays; the matches are found first to last, and after an empty match
  the search moves on by one character.
\<close>

function rep_all ::
  "flags \<Rightarrow> jsstring \<Rightarrow> re \<Rightarrow> (rmatch \<Rightarrow> 'st \<Rightarrow> jsstring \<times> 'st) \<Rightarrow> nat \<Rightarrow> 'st
     \<Rightarrow> jsstring \<times> 'st" where
  "rep_all F s r f p st =
     (case find_from F s r p of
        None \<Rightarrow> (drop p s, st)
      | Some (a, b, cs) \<Rightarrow>
          (let (t, st1) = f (a, b, cs) st;
               q = (if b = a then a + 1 else b);
               (rest, st2) = rep_all F s r f q st1
           in (slice s p a @ t @ slice s b q @ rest, st2)))"
  by pat_completeness auto
termination
proof (relation "measure (\<lambda>(F, s, r, f, p, st). length s + 1 - p)")
  show "wf (measure (\<lambda>(F, s, r, f, p, st). length s + 1 - p))" by simp
next
  fix F :: flags and s :: jsstring and r :: re and f :: "rmatch \<Rightarrow> 'st \<Rightarrow> jsstring \<times> 'st"
    and p :: nat and st :: 'st and x2 :: rmatch and a :: nat and y :: "nat \<times> caps"
    and b :: nat and cs :: caps and x :: "jsstring \<times> 'st" and t :: jsstring and st1 :: 'st
    and q :: nat
  assume "find_from F s r p = Some x2" "(a, y) = x2" "(b, cs) = y"
    and "q = (if b = a then a + 1 else b)"
  then have "find_from F s r p = Some (a, b, cs)" by simp
  from find_from_bounds [OF this] \<open>q = (if b = a then a + 1 else b)\<close>
  show "((F, s, r, f, q, st1), (F, s, r, f, p, st)) \<in>
      measure (\<lambda>(F, s, r, f, p, st). length s + 1 - p)"
    by auto
qed

declare rep_all.simps [simp del]

text \<open>\<open>s.replace(regex, f)\<close> with the \<open>g\<close> flag and a callback without side effects.\<close>

definition pure_callback :: "(rmatch \<Rightarrow> jsstring) \<Rightarrow> rmatch \<Rightarrow> unit \<Rightarrow> jsstring \<times> unit" where
  "pure_callback f m st = (f m, st)"

definition replace_all :: "flags \<Rightarrow> re \<Rightarrow> (rmatch \<Rightarrow> jsstring) \<Rightarrow> jsstring \<Rightarrow> jsstring" where
  "replace_all F r f s = fst (rep_all F s r (pure_callback f) 0 ())"

text \<open>The callback that expands a replacement string.\<close>

definition template :: "jsstring \<Rightarrow> re \<Rightarrow> jsstring \<Rightarrow> rmatch \<Rightarrow> jsstring" where
  "template s r tmpl m =
     (case m of (a, b, cs) \<Rightarrow> get_subst (slice s a b) s a (captures_of s r cs) tmpl)"

text \<open>\<open>s.replace(regex, "replacement")\<close> with the \<open>g\<close> flag.\<close>

definition replace_all_tmpl :: "flags \<Rightarrow> re \<Rightarrow> jsstring \<Rightarrow> jsstring \<Rightarrow> jsstring" where
  "replace_all_tmpl F r tmpl s = replace_all F r (template s r tmpl) s"

text \<open>\<open>s.replace(regex, "replacement")\<close> without the \<open>g\<close> flag: the first match only.\<close>

definition replace_first_tmpl :: "flags \<Rightarrow> re \<Rightarrow> jsstring \<Rightarrow> jsstring \<Rightarrow> jsstring" where
  "replace_first_tmpl F r tmpl s =
     (case find_from F s r 0 of
        None \<Rightarrow> s
      | Some (a, b, cs) \<Rightarrow> take a s @ template s r tmpl (a, b, cs) @ drop b s)"

text \<open>
  \<open>s.split(regex)\<close> for an expression without capture groups: the expression is tried
  at each index \<open>q\<close> from the end \<open>p\<close> of the last separator; a match that ends at
  \<open>p\<close> is passed over.
\<close>

function split_loop :: "flags \<Rightarrow> jsstring \<Rightarrow> re \<Rightarrow> nat \<Rightarrow> nat \<Rightarrow> jsstring list" where
  "split_loop F s r p q =
     (if q < length s then
        (case rm F s r (q, []) of
           [] \<Rightarrow> split_loop F s r p (q + 1)
         | (e, cs) # _ \<Rightarrow>
             (if e = p then split_loop F s r p (q + 1)
              else slice s p q # split_loop F s r e e))
      else [drop p s])"
  by pat_completeness auto
termination
proof (relation "measure (\<lambda>(F, s, r, p, q). 2 * (length s - q) + (if p = q then 0 else 1))",
    goal_cases)
  case (4 F s r p q x21 x22 e cs)
  then have "(e, cs) \<in> set (rm F s r (q, []))" by simp
  from rm_bounds [OF this] 4 show ?case by auto
qed auto

declare split_loop.simps [simp del]

definition split_re :: "flags \<Rightarrow> re \<Rightarrow> jsstring \<Rightarrow> jsstring list" where
  "split_re F r s =
     (if s = [] then (if rm F s r (0, []) = [] then [s] else [])
      else split_loop F s r 0 0)"


section \<open>The scripting-language tokenizer (markdown.js, \<open>highlightBSL\<close>)\<close>

text \<open>\<open>esc\<close>: three global single-character replacements, in the source's order.\<close>

definition esc :: "jsstring \<Rightarrow> jsstring" where
  "esc s = replaceChar c_gt (js ''&gt;'')
             (replaceChar c_lt (js ''&lt;'')
               (replaceChar c_amp (js ''&amp;'') s))"

text \<open>
  \<open>isWordStart\<close> and \<open>isWordChar\<close>: Latin letters, underscore, the Cyrillic range
  U+0410..U+044F and the two letters U+0401, U+0451; \<open>isWordChar\<close> adds the digits.
\<close>

definition isWordStart :: "jschar \<Rightarrow> bool" where
  "isWordStart c \<longleftrightarrow> isLatin c \<or> c = 95 \<or> (1040 \<le> c \<and> c \<le> 1103) \<or> c = 1025 \<or> c = 1105"

definition isWordChar :: "jschar \<Rightarrow> bool" where
  "isWordChar c \<longleftrightarrow> isLatin c \<or> isDigit c \<or> c = 95 \<or> (1040 \<le> c \<and> c \<le> 1103)
     \<or> c = 1025 \<or> c = 1105"

text \<open>
  The four vocabulary sets of the tokenizer. The theorems below hold whatever the sets
  contain, so the tables are a parameter of the model.
\<close>

record vocab =
  KEYWORDS :: "jsstring set"
  UPPERCASE_ONLY_KEYWORDS :: "jsstring set"
  TYPES :: "jsstring set"
  BUILTINS :: "jsstring set"

datatype tokclass = Tok_str | Tok_num | Tok_com | Tok_preproc | Tok_attr | Tok_k | Tok_type
  | Tok_builtin | Tok_op

text \<open>
  A span: the offset of its first character in the code, its style class (\<open>None\<close>: plain
  escaped text) and its source text.
\<close>

type_synonym 'c span = "nat \<times> 'c option \<times> jsstring"

definition span_text :: "'c span \<Rightarrow> jsstring" where
  "span_text sp = snd (snd sp)"

definition spans_text :: "'c span list \<Rightarrow> jsstring" where
  "spans_text sps = concat (map span_text sps)"

text \<open>The scan of a string or date literal, from the character after the opening quote.\<close>

function str_end :: "jschar \<Rightarrow> jsstring \<Rightarrow> nat \<Rightarrow> nat" where
  "str_end quote code j =
     (if j < length code then
        (if code ! j = quote then
           (if at code (j + 1) = Some quote then str_end quote code (j + 2) else j + 1)
         else str_end quote code (j + 1))
      else j)"
  by pat_completeness auto
termination
  by (relation "measure (\<lambda>(q, code, j). length code - j)") auto

declare str_end.simps [simp del]

text \<open>\<open>/^'[0-9]{8}([0-9]{6})?'$/.test(content)\<close>\<close>

definition isDateLiteral :: "jsstring \<Rightarrow> bool" where
  "isDateLiteral content \<longleftrightarrow>
     (length content = 10 \<or> length content = 16) \<and>
     hd content = c_squote \<and> last content = c_squote \<and>
     list_all isDigit (butlast (tl content))"

text \<open>\<open>P(code[j])\<close> for a test that is false on \<open>undefined\<close>.\<close>

definition at_is :: "(jschar \<Rightarrow> bool) \<Rightarrow> jsstring \<Rightarrow> nat \<Rightarrow> bool" where
  "at_is P code j = (case at code j of None \<Rightarrow> False | Some c \<Rightarrow> P c)"

definition isSpaceBSL :: "jschar \<Rightarrow> bool" where
  "isSpaceBSL c \<longleftrightarrow> c = c_space \<or> c = c_tab \<or> c = c_cr \<or> c = c_nl"

definition isOperatorChar :: "jschar \<Rightarrow> bool" where
  "isOperatorChar c \<longleftrightarrow> c = c_plus \<or> c = c_minus \<or> c = 42 \<or> c = c_slash \<or> c = 37
     \<or> c = c_eq \<or> c = c_lt \<or> c = c_gt"

text \<open>The end of a number literal that starts at \<open>i\<close>.\<close>

definition num_end :: "jsstring \<Rightarrow> nat \<Rightarrow> nat" where
  "num_end code i =
     (let j0 = (if at code i = Some c_minus then i + 1 else i);
          j1 = scan_while isDigit code j0;
          j2 = (if at code j1 = Some c_dot \<and> at_is isDigit code (j1 + 1)
                then scan_while isDigit code (j1 + 1) else j1);
          j3 = (if (at code j2 = Some 101 \<or> at code j2 = Some 69)
                   \<and> at_is (\<lambda>c. isDigit c \<or> c = c_plus \<or> c = c_minus) code (j2 + 1)
                then (let j4 = j2 + 1;
                          j5 = (if at code j4 = Some c_plus \<or> at code j4 = Some c_minus
                                then j4 + 1 else j4)
                      in scan_while isDigit code j5)
                else j2)
      in j3)"

text \<open>\<open>while (k >= 0 && P(code[k])) k--\<close>, with \<open>k\<close> an integer that may reach \<open>-1\<close>.\<close>

function back_while :: "(jschar \<Rightarrow> bool) \<Rightarrow> jsstring \<Rightarrow> int \<Rightarrow> int" where
  "back_while P code k =
     (if 0 \<le> k \<and> P (code ! nat k) then back_while P code (k - 1) else k)"
  by pat_completeness auto
termination
  by (relation "measure (\<lambda>(P, code, k). nat (k + 1))") auto

declare back_while.simps [simp del]

text \<open>The context of the word at \<open>i\<close>: \<open>isAfterDot\<close> and \<open>prevWord\<close>.\<close>

definition isAfterDot :: "jsstring \<Rightarrow> nat \<Rightarrow> bool" where
  "isAfterDot code i \<longleftrightarrow> 0 < i \<and> code ! (i - 1) = c_dot"

definition prevWord :: "jsstring \<Rightarrow> nat \<Rightarrow> jsstring" where
  "prevWord code i =
     (let k = back_while isSpaceBSL code (int i - 1) in
      if 0 \<le> k \<and> \<not> isAfterDot code i then
        (if code ! nat k = c_dot then []
         else if isWordChar (code ! nat k) then
           (let wordEnd = k + 1; k' = back_while isWordChar code k
            in toLowerCase (slice code (nat (k' + 1)) (nat wordEnd)))
         else [])
      else [])"

definition isBeforeParen :: "jsstring \<Rightarrow> nat \<Rightarrow> bool" where
  "isBeforeParen code j =
     (let afterIdx = scan_while isSpaceBSL code j
      in afterIdx < length code \<and> code ! afterIdx = c_lparen)"

text \<open>The lower-case word U+043D U+043E U+0432 U+044B U+0439 that must precede a type name.\<close>

definition w_novyj :: jsstring where
  "w_novyj = [1085, 1086, 1074, 1099, 1081]"

definition word_class :: "vocab \<Rightarrow> jsstring \<Rightarrow> nat \<Rightarrow> nat \<Rightarrow> tokclass option" where
  "word_class V code i j =
     (let word = slice code i j; lw = toLowerCase word in
      if lw \<in> UPPERCASE_ONLY_KEYWORDS V \<and> \<not> isAfterDot code i \<and> word = toUpperCase word
        then Some Tok_k
      else if lw \<in> KEYWORDS V \<and> \<not> isAfterDot code i then Some Tok_k
      else if lw \<in> TYPES V \<and> prevWord code i = w_novyj then Some Tok_type
      else if lw \<in> BUILTINS V \<and> \<not> isAfterDot code i \<and> (lw = w_novyj \<or> isBeforeParen code j)
        then Some Tok_builtin
      else None)"

text \<open>
  One iteration of the main loop at \<open>i < len\<close>: the index where the next iteration
  starts, and the class of the span \<open>code.slice(i, j)\<close> it emits. The recognizers are
  tried in the source's order.
\<close>

definition bsl_step :: "vocab \<Rightarrow> jsstring \<Rightarrow> nat \<Rightarrow> nat \<times> tokclass option" where
  "bsl_step V code i =
     (let ch = code ! i in
      if ch = c_dquote \<or> ch = c_squote then
        (let j = str_end ch code (i + 1);
             isDate = (ch = c_squote \<and> isDateLiteral (slice code i j))
         in (j, Some (if isDate then Tok_num else Tok_str)))
      else if ch = c_slash \<and> at code (i + 1) = Some c_slash then
        (scan_while (\<lambda>c. c \<noteq> c_nl) code (i + 2), Some Tok_com)
      else if ch = c_hash then
        (scan_while isWordStart code (i + 1), Some Tok_preproc)
      else if ch = c_amp then
        (scan_while isWordStart code (i + 1), Some Tok_attr)
      else if (isDigit ch \<or> (ch = c_minus \<and> at_is isDigit code (i + 1)))
              \<and> \<not> (0 < i \<and> (isWordChar (code ! (i - 1)) \<or> code ! (i - 1) = c_dot
                              \<or> code ! (i - 1) = c_rparen)) then
        (num_end code i, Some Tok_num)
      else if isWordStart ch then
        (let j = scan_while isWordChar code (i + 1) in (j, word_class V code i j))
      else if isOperatorChar ch then
        (if (ch = c_lt \<or> ch = c_gt) \<and> at code (i + 1) = Some c_eq then (i + 2, Some Tok_op)
         else if ch = c_lt \<and> at code (i + 1) = Some c_gt then (i + 2, Some Tok_op)
         else (i + 1, Some Tok_op))
      else (i + 1, None))"

lemma scan_while_ge: "j \<le> scan_while P code j"
  by (induction P code j rule: scan_while.induct)
     (subst scan_while.simps, auto split: if_splits)

lemma scan_while_gt: "j < length code \<Longrightarrow> P (code ! j) \<Longrightarrow> j < scan_while P code j"
  using scan_while_ge [of "j + 1" P code] by (subst scan_while.simps) simp

lemma str_end_ge: "j \<le> str_end q code j"
proof (induction q code j rule: str_end.induct)
  case (1 quote code j)
  show ?case
    using "1.IH" by (subst str_end.simps) (auto split: if_splits)
qed

lemma num_end_gt:
  assumes "i < length code"
    and "isDigit (code ! i) \<or> code ! i = c_minus"
  shows "i < num_end code i"
proof -
  define j0 where "j0 = (if at code i = Some c_minus then i + 1 else i)"
  have "i < scan_while isDigit code j0"
  proof (cases "at code i = Some c_minus")
    case True
    then show ?thesis
      using scan_while_ge [of "i + 1" isDigit code] by (simp add: j0_def)
  next
    case False
    with assms have "isDigit (code ! i)" by (auto simp: at_def)
    then show ?thesis
      using False assms(1) scan_while_gt [of i code isDigit] by (simp add: j0_def)
  qed
  moreover have "scan_while isDigit code j0 \<le> num_end code i"
  proof -
    have a: "x \<le> scan_while isDigit code (x + 1)" for x
      using scan_while_ge [of "x + 1" isDigit code] by simp
    have b: "x \<le> scan_while isDigit code (Suc (Suc x))" for x
      using scan_while_ge [of "Suc (Suc x)" isDigit code] by simp
    show ?thesis
      unfolding num_end_def Let_def j0_def [symmetric]
      using a b by (auto intro: order_trans)
  qed
  ultimately show ?thesis by simp
qed

lemma bsl_step_progress: "i < length code \<Longrightarrow> i < fst (bsl_step V code i)"
proof -
  assume len: "i < length code"
  have s1: "i < str_end q code (i + 1)" for q
    using str_end_ge [of "i + 1" q code] by simp
  have s2: "i < scan_while P code (i + 2)" for P
    using scan_while_ge [of "i + 2" P code] by simp
  have s3: "i < scan_while P code (i + 1)" for P
    using scan_while_ge [of "i + 1" P code] by simp
  have s4: "isDigit (code ! i) \<or> code ! i = c_minus \<Longrightarrow> i < num_end code i"
    using num_end_gt [OF len] by simp
  show ?thesis
  proof (cases "isDigit (code ! i) \<or> code ! i = c_minus")
    case True
    then have "i < num_end code i" by (rule s4)
    then show ?thesis
      unfolding bsl_step_def Let_def using s1 s2 s3 by (simp split: if_splits)
  next
    case False
    then show ?thesis
      unfolding bsl_step_def Let_def using s1 s2 s3 by (simp split: if_splits)
  qed
qed

text \<open>The main loop, from index \<open>i\<close>: the spans emitted, in order.\<close>

function bsl_loop :: "vocab \<Rightarrow> jsstring \<Rightarrow> nat \<Rightarrow> tokclass span list" where
  "bsl_loop V code i =
     (if i < length code then
        (let (j, c) = bsl_step V code i in (i, c, slice code i j) # bsl_loop V code j)
      else [])"
  by pat_completeness auto
termination
proof (relation "measure (\<lambda>(V, code, i). length code - i)")
  show "wf (measure (\<lambda>(V, code, i). length code - i))" by simp
next
  fix V :: vocab and code :: jsstring and i :: nat and x :: "nat \<times> tokclass option"
    and j :: nat and c :: "tokclass option"
  assume "i < length code" and "x = bsl_step V code i" and "(j, c) = x"
  then have "i < j"
    using bsl_step_progress [of i code V] by (metis fst_conv)
  with \<open>i < length code\<close>
  show "((V, code, j), (V, code, i)) \<in> measure (\<lambda>(V, code, i). length code - i)"
    by simp
qed

declare bsl_loop.simps [simp del]

definition bsl_spans :: "vocab \<Rightarrow> jsstring \<Rightarrow> tokclass span list" where
  "bsl_spans V code = bsl_loop V code 0"

definition class_name :: "tokclass \<Rightarrow> jsstring" where
  "class_name c = (case c of
       Tok_str \<Rightarrow> js ''tok-str'' | Tok_num \<Rightarrow> js ''tok-num'' | Tok_com \<Rightarrow> js ''tok-com''
     | Tok_preproc \<Rightarrow> js ''tok-preproc'' | Tok_attr \<Rightarrow> js ''tok-attr'' | Tok_k \<Rightarrow> js ''tok-k''
     | Tok_type \<Rightarrow> js ''tok-type'' | Tok_builtin \<Rightarrow> js ''tok-builtin''
     | Tok_op \<Rightarrow> js ''tok-op'')"

text \<open>What one span adds to \<open>out\<close>: the escaped text, wrapped when the span has a class.\<close>

definition span_html :: "('c \<Rightarrow> jsstring) \<Rightarrow> 'c span \<Rightarrow> jsstring" where
  \<open>span_html name sp =
     (case fst (snd sp) of
        None \<Rightarrow> esc (span_text sp)
      | Some c \<Rightarrow> js ''<span class="'' @ name c @ js ''">'' @ esc (span_text sp) @ js ''</span>'')\<close>

definition highlightBSL :: "vocab \<Rightarrow> jsstring \<Rightarrow> jsstring" where
  "highlightBSL V code = concat (map (span_html class_name) (bsl_spans V code))"

subsection \<open>The detector \<open>likelyBSL\<close> and the entry point \<open>highlight\<close>\<close>

text \<open>
  \<open>/\b(w1|w2|...)\b/i.test(text)\<close>: one of the words, between two word boundaries. The
  expression has no \<open>u\<close> flag, so \<open>\b\<close> is a boundary of \<open>[A-Za-z0-9_]\<close>.
\<close>

definition re_words :: "jsstring list \<Rightarrow> re" where
  "re_words ws = Grp 1 (alts (map lit ws))"

definition has_word :: "jsstring list \<Rightarrow> jsstring \<Rightarrow> bool" where
  "has_word ws text = re_test F_i (seqs [WordB, re_words ws, WordB]) text"

text \<open>
  The words of the triggers, in the source's order. The Cyrillic words are given as
  their code units; the second word of each pair is its English form.
\<close>

definition w_procedure :: "jsstring list" where
  "w_procedure =
     [[1055, 1088, 1086, 1094, 1077, 1076, 1091, 1088, 1072], js ''Procedure'']"

definition w_function :: "jsstring list" where
  "w_function =
     [[1060, 1091, 1085, 1082, 1094, 1080, 1103], js ''Function'']"

definition w_endprocedure :: "jsstring list" where
  "w_endprocedure =
     [[1050, 1086, 1085, 1077, 1094, 1055, 1088, 1086, 1094, 1077, 1076, 1091, 1088, 1099],
      js ''EndProcedure'']"

definition w_endfunction :: "jsstring list" where
  "w_endfunction =
     [[1050, 1086, 1085, 1077, 1094, 1060, 1091, 1085, 1082, 1094, 1080, 1080],
      js ''EndFunction'']"

definition w_if :: "jsstring list" where
  "w_if =
     [[1045, 1089, 1083, 1080], js ''If'']"

definition w_then :: "jsstring list" where
  "w_then =
     [[1058, 1086, 1075, 1076, 1072], js ''Then'']"

definition w_for :: "jsstring list" where
  "w_for =
     [[1044, 1083, 1103], js ''For'']"

definition w_each :: "jsstring list" where
  "w_each =
     [[1050, 1072, 1078, 1076, 1086, 1075, 1086], js ''Each'']"

definition w_do :: "jsstring list" where
  "w_do =
     [[1062, 1080, 1082, 1083], js ''Do'']"

definition w_enddo :: "jsstring list" where
  "w_enddo =
     [[1050, 1086, 1085, 1077, 1094, 1062, 1080, 1082, 1083, 1072], js ''EndDo'']"

definition w_query :: "jsstring list" where
  "w_query =
     [[1047, 1072, 1087, 1088, 1086, 1089], js ''Query'']"

definition w_valuetable :: "jsstring list" where
  "w_valuetable =
     [[1058, 1072, 1073, 1083, 1080, 1094, 1072, 1047, 1085, 1072, 1095, 1077, 1085, 1080, 1081],
      js ''ValueTable'']"

definition w_selection :: "jsstring list" where
  "w_selection =
     [[1042, 1099, 1073, 1086, 1088, 1082, 1072], js ''Selection'']"

definition w_map :: "jsstring list" where
  "w_map =
     [[1057, 1086, 1086, 1090, 1074, 1077, 1090, 1089, 1090, 1074, 1080, 1077], js ''Map'']"

definition w_at_ru :: "jsstring list" where
  "w_at_ru =
     [[1050, 1083, 1080, 1077, 1085, 1090, 1077],
      [1057, 1077, 1088, 1074, 1077, 1088, 1077],
      [1057, 1077, 1088, 1074, 1077, 1088, 1077, 1042, 1050, 1083, 1080, 1077, 1085, 1090, 1077],
      [1057, 1077, 1088, 1074, 1077, 1088, 1077, 1041, 1077, 1079, 1050, 1086, 1085, 1090, 1077, 1082, 1089, 1090, 1072]]"

definition w_at_en :: "jsstring list" where
  "w_at_en =
     [js ''Client'', js ''Server'', js ''ServerNoContext'']"

definition w_preproc :: "jsstring list" where
  "w_preproc =
     [[1045, 1089, 1083, 1080], [1054, 1073, 1083, 1072, 1089, 1090, 1100], js ''If'',
      js ''Region'']"

definition w_message :: "jsstring list" where
  "w_message =
     [[1057, 1086, 1086, 1073, 1097, 1080, 1090, 1100], js ''Message'',
      [1058, 1077, 1082, 1091, 1097, 1072, 1103, 1044, 1072, 1090, 1072], js ''CurrentDate'']"

definition w_strlen :: "jsstring list" where
  "w_strlen =
     [[1057, 1090, 1088, 1044, 1083, 1080, 1085, 1072], js ''StrLen'',
      [1057, 1090, 1088, 1053, 1072, 1081, 1090, 1080], js ''StrFind'']"

text \<open>
  \<open>/&\s*XX(w1|w2|...)/i\<close> with the two-letter prefix U+041D U+0430 or \<open>At\<close>,
  \<open>/#(w1|...)\b/i\<close> and \<open>/'[0-9]{8}([0-9]{6})?'/\<close>.
\<close>

definition re_attr :: "jsstring \<Rightarrow> jsstring list \<Rightarrow> re" where
  "re_attr prefix ws = seqs [Chr c_amp, Star True (Cls True rs_space), lit prefix, re_words ws]"

definition re_preproc :: re where
  "re_preproc = seqs [Chr c_hash, re_words w_preproc, WordB]"

definition re_date :: re where
  "re_date = seqs [Chr c_squote, Times 8 (Cls True rs_digit),
                   Opt (Grp 1 (Times 6 (Cls True rs_digit))), Chr c_squote]"

definition likelyBSL_score :: "jsstring \<Rightarrow> nat" where
  "likelyBSL_score text =
     (if has_word w_procedure text then 2 else 0)
   + (if has_word w_function text then 2 else 0)
   + (if has_word w_endprocedure text then 2 else 0)
   + (if has_word w_endfunction text then 2 else 0)
   + (if has_word w_if text \<and> has_word w_then text then 1 else 0)
   + (if has_word w_for text \<and> has_word w_each text then 1 else 0)
   + (if has_word w_do text then 1 else 0)
   + (if has_word w_enddo text then 1 else 0)
   + (if has_word w_query text then 1 else 0)
   + (if has_word w_valuetable text then 1 else 0)
   + (if has_word w_selection text then 1 else 0)
   + (if has_word w_map text then 1 else 0)
   + (if re_test F_i (re_attr [1053, 1072] w_at_ru) text then 2 else 0)
   + (if re_test F_i (re_attr (js ''At'') w_at_en) text then 2 else 0)
   + (if re_test F_i re_preproc text then 1 else 0)
   + (if has_word w_message text then 1 else 0)
   + (if has_word w_strlen text then 1 else 0)
   + (if re_test F_none re_date text then 1 else 0)"

definition likelyBSL :: "jsstring \<Rightarrow> bool" where
  "likelyBSL text \<longleftrightarrow> 2 \<le> likelyBSL_score text"

text \<open>
  \<open>highlight(code, lang)\<close>; \<open>lang\<close> is optional (\<open>None\<close>: not given), the result is
  \<open>null\<close> (\<open>None\<close>) or the highlighted HTML.
\<close>

definition re_lang :: re where
  "re_lang = seqs [Bol, Grp 1 (Alt (lit (js ''bsl'')) (lit (js ''1c''))), Eol]"

definition force :: "jsstring option \<Rightarrow> bool" where
  "force lang = (case lang of None \<Rightarrow> False | Some l \<Rightarrow> l \<noteq> [] \<and> re_test F_i re_lang l)"

definition highlight :: "vocab \<Rightarrow> jsstring \<Rightarrow> jsstring option \<Rightarrow> jsstring option" where
  "highlight V code lang =
     (if \<not> force lang \<and> \<not> likelyBSL code then None else Some (highlightBSL V code))"

lemma slice_drop: "i \<le> j \<Longrightarrow> slice code i j @ drop j code = drop i code"
proof -
  assume "i \<le> j"
  then have "drop (j - i) (drop i code) = drop j code" by simp
  then show ?thesis
    unfolding slice_def by (metis append_take_drop_id)
qed

lemma bsl_loop_covers: "spans_text (bsl_loop V code i) = drop i code"
proof (induction V code i rule: bsl_loop.induct)
  case (1 V code i)
  show ?case
  proof (cases "i < length code")
    case True
    obtain j c where step: "bsl_step V code i = (j, c)" by (cases "bsl_step V code i")
    have "i < j" using bsl_step_progress [OF True, of V] step by simp
    moreover have "spans_text (bsl_loop V code j) = drop j code"
      using "1.IH" [OF True step [symmetric] refl] .
    ultimately show ?thesis
      using True step slice_drop [of i j code]
      by (subst bsl_loop.simps) (simp add: spans_text_def span_text_def)
  next
    case False
    then show ?thesis
      by (subst bsl_loop.simps) (simp add: spans_text_def)
  qed
qed

section \<open>The XML tokenizer (xml.js, \<open>highlightXML\<close>)\<close>

datatype xmlclass = X_com | X_cdata | X_doctype | X_decl | X_pi | X_tag | X_attr | X_val
  | X_entity

definition xml_class_name :: "xmlclass \<Rightarrow> jsstring" where
  "xml_class_name c = (case c of
       X_com \<Rightarrow> js ''tok-com'' | X_cdata \<Rightarrow> js ''tok-xml-cdata''
     | X_doctype \<Rightarrow> js ''tok-xml-doctype'' | X_decl \<Rightarrow> js ''tok-xml-decl''
     | X_pi \<Rightarrow> js ''tok-xml-pi'' | X_tag \<Rightarrow> js ''tok-xml-tag''
     | X_attr \<Rightarrow> js ''tok-xml-attr'' | X_val \<Rightarrow> js ''tok-xml-val''
     | X_entity \<Rightarrow> js ''tok-xml-entity'')"

text \<open>\<open>[a-zA-Z0-9:._-]\<close>\<close>

definition isNameChar :: "jschar \<Rightarrow> bool" where
  "isNameChar c \<longleftrightarrow> isLatin c \<or> isDigit c \<or> c = 58 \<or> c = c_dot \<or> c = 95 \<or> c = c_minus"

definition isHexDigit :: "jschar \<Rightarrow> bool" where
  "isHexDigit c \<longleftrightarrow> isDigit c \<or> (97 \<le> c \<and> c \<le> 102) \<or> (65 \<le> c \<and> c \<le> 70)"

text \<open>\<open>let j = code.indexOf(close, from); if (j === -1) j = len; else j += close.length\<close>\<close>

definition region_end :: "jsstring \<Rightarrow> jsstring \<Rightarrow> nat \<Rightarrow> nat" where
  "region_end code close from =
     (case indexOf code close from of None \<Rightarrow> length code | Some j \<Rightarrow> j + length close)"

text \<open>The DOCTYPE scan: \<open>while (j < len && depth > 0)\<close> with its depth counter.\<close>

function doctype_end :: "jsstring \<Rightarrow> nat \<Rightarrow> nat \<Rightarrow> nat" where
  "doctype_end code j depth =
     (if j < length code \<and> 0 < depth then
        doctype_end code (j + 1)
          (if code ! j = c_lt then depth + 1 else if code ! j = c_gt then depth - 1 else depth)
      else j)"
  by pat_completeness auto
termination
  by (relation "measure (\<lambda>(code, j, depth). length code - j)") auto

declare doctype_end.simps [simp del]

text \<open>
  \<open>while (j < len && /\s/.test(code[j])) { out += esc(code[j]); j++; }\<close>: the new \<open>j\<close>
  and one plain span per character.
\<close>

definition skip_ws :: "jsstring \<Rightarrow> nat \<Rightarrow> nat \<times> xmlclass span list" where
  "skip_ws code j =
     (let j' = scan_while isSpaceJS code j
      in (j', map (\<lambda>k. (k, None, [code ! k])) [j..<j']))"

text \<open>
  The condition and the body of the attribute loop. The body is given as the new \<open>j\<close>
  and the spans it appends to \<open>out\<close>.
\<close>

definition attr_cond :: "jsstring \<Rightarrow> nat \<Rightarrow> bool" where
  "attr_cond code j \<longleftrightarrow> j < length code \<and> code ! j \<noteq> c_gt
     \<and> \<not> (code ! j = c_slash \<and> at code (j + 1) = Some c_gt)"

definition attr_value :: "jsstring \<Rightarrow> nat \<Rightarrow> nat \<times> xmlclass span list" where
  "attr_value code j =
     (if at code j = Some c_dquote \<or> at code j = Some c_squote then
        (let k0 = scan_while (\<lambda>c. c \<noteq> code ! j) code (j + 1);
             k = (if k0 < length code then k0 + 1 else k0)
         in (k, [(j, Some X_val, slice code j k)]))
      else (j, []))"

definition attr_step :: "jsstring \<Rightarrow> nat \<Rightarrow> nat \<times> xmlclass span list" where
  "attr_step code attrStart =
     (let j1 = scan_while isNameChar code attrStart;
          name = (if attrStart < j1 then [(attrStart, Some X_attr, slice code attrStart j1)]
                  else []);
          (j2, ws2) = skip_ws code j1
      in if at code j2 = Some c_eq then
           (let (j4, ws4) = skip_ws code (j2 + 1);
                (j5, val) = attr_value code j4;
                (j6, ws6) = skip_ws code j5
            in (j6, name @ ws2 @ [(j2, None, [c_eq])] @ ws4 @ val @ ws6))
         else (let (j6, ws6) = skip_ws code j2 in (j6, name @ ws2 @ ws6)))"

text \<open>
  The attribute loop; its state is \<open>j\<close> and the spans so far. Nothing in its body is
  bound to advance \<open>j\<close>, so the loop is a partial function: \<open>None\<close> stands for a scan
  that never returns.
\<close>

partial_function (option) attr_loop ::
  "jsstring \<Rightarrow> nat \<times> xmlclass span list \<Rightarrow> (nat \<times> xmlclass span list) option" where
  "attr_loop code st =
     (if attr_cond code (fst st)
      then attr_loop code (fst (attr_step code (fst st)), snd st @ snd (attr_step code (fst st)))
      else Some st)"

text \<open>The tag recognizer, entered at \<open>code[i] = <\<close>.\<close>

definition xml_tag :: "jsstring \<Rightarrow> nat \<Rightarrow> (nat \<times> xmlclass span list) option" where
  "xml_tag code i =
     (let isClosing = (at code (i + 1) = Some c_slash);
          tagStart = (if isClosing then i + 2 else i + 1);
          j1 = scan_while isNameChar code tagStart;
          tagName = slice code tagStart j1;
          out1 = [(i, Some X_tag, [c_lt] @ (if isClosing then [c_slash] else []) @ tagName)];
          (j2, ws2) = skip_ws code j1
      in Option.bind
           (if \<not> isClosing then attr_loop code (j2, out1 @ ws2) else Some (j2, out1 @ ws2))
           (\<lambda>(j3, out3).
              if at code j3 = Some c_slash \<and> at code (j3 + 1) = Some c_gt
                then Some (j3 + 2, out3 @ [(j3, Some X_tag, [c_slash, c_gt])])
              else if at code j3 = Some c_gt
                then Some (j3 + 1, out3 @ [(j3, Some X_tag, [c_gt])])
              else Some (j3, out3)))"

text \<open>The end of an entity reference that starts at \<open>i\<close>, when it has its semicolon.\<close>

definition entity_end :: "jsstring \<Rightarrow> nat \<Rightarrow> nat option" where
  "entity_end code i =
     (let j = (if at code (i + 1) = Some c_hash then
                 (if at code (i + 2) = Some 120 \<or> at code (i + 2) = Some 88
                  then scan_while isHexDigit code (i + 3)
                  else scan_while isDigit code (i + 2))
               else scan_while (\<lambda>c. isLatin c \<or> isDigit c) code (i + 1))
      in if at code j = Some 59 then Some (j + 1) else None)"

text \<open>
  One iteration of the main loop at \<open>i < len\<close>: the next index and the spans emitted.
  The test \<open>/[a-zA-Z/]/.test(code[i + 1])\<close> is applied to the string \<open>undefined\<close> when
  \<open>i + 1\<close> is out of range, and that string has letters.
\<close>

definition xml_step :: "jsstring \<Rightarrow> nat \<Rightarrow> (nat \<times> xmlclass span list) option" where
  "xml_step code i =
     (let ch = code ! i in
      if ch = c_lt \<and> slice code i (i + 4) = js ''<!--'' then
        (let j = region_end code (js ''-->'') (i + 4)
         in Some (j, [(i, Some X_com, slice code i j)]))
      else if ch = c_lt \<and> slice code i (i + 9) = js ''<![CDATA['' then
        (let j = region_end code (js '']]>'') (i + 9)
         in Some (j, [(i, Some X_cdata, slice code i j)]))
      else if ch = c_lt \<and> toUpperCase (slice code i (i + 9)) = js ''<!DOCTYPE'' then
        (let j = doctype_end code (i + 9) 1
         in Some (j, [(i, Some X_doctype, slice code i j)]))
      else if ch = c_lt \<and> at code (i + 1) = Some 63 then
        (let j = region_end code (js ''?>'') (i + 2);
             pi = slice code i j;
             isXmlDecl = (toUpperCase (slice pi 2 5) = js ''XML'' \<and> at_is isSpaceJS pi 5)
         in Some (j, [(i, Some (if isXmlDecl then X_decl else X_pi), pi)]))
      else if ch = c_lt \<and> (case at code (i + 1) of None \<Rightarrow> True
                                | Some c \<Rightarrow> isLatin c \<or> c = c_slash) then
        xml_tag code i
      else (case (if ch = c_amp then entity_end code i else None) of
              Some j \<Rightarrow> Some (j, [(i, Some X_entity, slice code i j)])
            | None \<Rightarrow> Some (i + 1, [(i, None, [ch])])))"

partial_function (option) xml_loop :: "jsstring \<Rightarrow> nat \<Rightarrow> xmlclass span list option" where
  "xml_loop code i =
     (if i < length code then
        Option.bind (xml_step code i)
          (\<lambda>(j, sps). Option.bind (xml_loop code j) (\<lambda>rest. Some (sps @ rest)))
      else Some [])"

definition xml_spans :: "jsstring \<Rightarrow> xmlclass span list option" where
  "xml_spans code = xml_loop code 0"

definition highlightXML :: "jsstring \<Rightarrow> jsstring option" where
  "highlightXML code = map_option (\<lambda>sps. concat (map (span_html xml_class_name) sps))
     (xml_spans code)"

declare attr_loop.simps [code] xml_loop.simps [code]

section \<open>Properties of the scripting-language tokenizer\<close>

text \<open>
  The scan of \<open>highlightBSL\<close> is a total function (its termination is proved above), and
  the source texts of its spans, concatenated, are the input.
\<close>

lemma highlightBSL_covers_input: "spans_text (bsl_spans V code) = code"
  by (simp add: bsl_spans_def bsl_loop_covers)

lemma bsl_loop_span:
  "(p, c, t) \<in> set (bsl_loop V code i) \<Longrightarrow> p < length code \<and> c = snd (bsl_step V code p)"
proof (induction V code i rule: bsl_loop.induct)
  case (1 V code i)
  show ?case
  proof (cases "i < length code")
    case True
    obtain j c' where step: "bsl_step V code i = (j, c')" by (cases "bsl_step V code i")
    from "1.prems" True step
    have "(p, c, t) = (i, c', slice code i j) \<or> (p, c, t) \<in> set (bsl_loop V code j)"
      by (subst (asm) bsl_loop.simps) simp
    then show ?thesis
    proof
      assume "(p, c, t) = (i, c', slice code i j)"
      then show ?thesis using True step by simp
    next
      assume "(p, c, t) \<in> set (bsl_loop V code j)"
      then show ?thesis using "1.IH" [OF True step [symmetric] refl] by simp
    qed
  next
    case False
    with "1.prems" show ?thesis by (subst (asm) bsl_loop.simps) simp
  qed
qed

lemma word_class_after_dot: "isAfterDot code i \<Longrightarrow> word_class V code i j = None"
  by (simp add: word_class_def prevWord_def Let_def w_novyj_def)

lemma bsl_step_after_dot:
  "isAfterDot code i \<Longrightarrow>
     snd (bsl_step V code i) \<notin> {Some Tok_k, Some Tok_type, Some Tok_builtin}"
  by (simp add: bsl_step_def Let_def word_class_after_dot)

text \<open>A small vocabulary with entries of the source's tables, for concrete inputs.\<close>

definition sample_vocab :: vocab where
  "sample_vocab =
     \<lparr> KEYWORDS = {[1077, 1089, 1083, 1080], w_novyj, js ''if'', js ''then''},
       UPPERCASE_ONLY_KEYWORDS = {[1074, 1099, 1073, 1088, 1072, 1090, 1100]},
       TYPES = {[1084, 1072, 1089, 1089, 1080, 1074], js ''array''},
       BUILTINS = {[1089, 1086, 1086, 1073, 1097, 1080, 1090, 1100], js ''message''} \<rparr>"

text \<open>
  C6. A span that starts right after a \<open>.\<close> (a member-access name, when it is a word)
  is never given the keyword, type or builtin class, whatever the vocabulary holds.
\<close>

theorem member_access_never_classified:
  "(p, c, t) \<in> set (bsl_spans V code) \<Longrightarrow> 0 < p \<Longrightarrow> code ! (p - 1) = c_dot \<Longrightarrow>
     c \<notin> {Some Tok_k, Some Tok_type, Some Tok_builtin}"
proof -
  assume mem: "(p, c, t) \<in> set (bsl_spans V code)" and "0 < p" "code ! (p - 1) = c_dot"
  then have "isAfterDot code p" by (simp add: isAfterDot_def)
  moreover from mem have "c = snd (bsl_step V code p)"
    using bsl_loop_span [of p c t V code 0] by (simp add: bsl_spans_def)
  ultimately show ?thesis using bsl_step_after_dot [of code p V] by simp
qed

theorem member_access_never_classified_witness:
  "(5, None, js ''if'') \<in> set (bsl_spans sample_vocab (js ''if x.if''))
   \<and> (0, Some Tok_k, js ''if'') \<in> set (bsl_spans sample_vocab (js ''if x.if''))
   \<and> (0 :: nat) < 5 \<and> js ''if x.if'' ! (5 - 1) = c_dot
   \<and> None \<notin> {Some Tok_k, Some Tok_type, Some Tok_builtin}"
proof -
  have sp: "bsl_spans sample_vocab (js ''if x.if'') =
      [(0, Some Tok_k, js ''if''), (2, None, js '' ''), (3, None, js ''x''),
       (4, None, js ''.''), (5, None, js ''if'')]"
    by code_simp
  have m: "(5, None, js ''if'') \<in> set (bsl_spans sample_vocab (js ''if x.if''))"
    by (simp add: sp)
  have d: "js ''if x.if'' ! (5 - 1) = c_dot" by code_simp
  have "(0 :: nat) < 5" by simp
  from member_access_never_classified [OF m this d] m d sp show ?thesis by simp
qed

section \<open>Properties of the detector and of the entry point\<close>

text \<open>The procedure of the specification's scenario: a declaration in Cyrillic letters.\<close>

definition cyrillic_procedure :: jsstring where
  "cyrillic_procedure =
     [1055, 1088, 1086, 1094, 1077, 1076, 1091, 1088, 1072, 32, 1058, 1077, 1089, 1090, 40, 41,
      10, 9, 1042, 1086, 1079, 1074, 1088, 1072, 1090, 59, 10, 1050, 1086, 1085, 1077, 1094,
      1055, 1088, 1086, 1094, 1077, 1076, 1091, 1088, 1099]"

text \<open>
  C7. The text of \<open>cyrillic_procedure\<close> has the declaration keywords U+041F U+0440
  U+043E U+0446 U+0435 U+0434 U+0443 U+0440 U+0430 and its closing keyword as standalone
  words, and \<open>likelyBSL\<close> gives it the score 0: the triggers are written with \<open>\b\<close>,
  which is a boundary of \<open>[A-Za-z0-9_]\<close> only, so a Cyrillic word between spaces has no
  boundary at either end. The English keyword alone is enough.
\<close>

theorem likelyBSL_misses_cyrillic_declaration:
  "likelyBSL_score cyrillic_procedure = 0 \<and> \<not> likelyBSL cyrillic_procedure
   \<and> likelyBSL (js ''Procedure Test()'')"
  by code_simp

text \<open>The claim's reading of "lang matches bsl or 1c, case-insensitively".\<close>

definition lang_is_bsl :: "jsstring option \<Rightarrow> bool" where
  "lang_is_bsl lang =
     (case lang of None \<Rightarrow> False
      | Some l \<Rightarrow> toUpperCase l = js ''BSL'' \<or> toUpperCase l = js ''1C'')"

lemma force_Some:
  "force (Some l) \<longleftrightarrow> toUpperCase l = js ''BSL'' \<or> toUpperCase l = js ''1C''"
proof -
  have a: "lit_at F_i l 0 (js ''bsl'') \<and> length l = 3 \<longleftrightarrow> toUpperCase l = js ''BSL''"
    by (cases l rule: list.exhaust; cases "tl l"; cases "tl (tl l)"; cases "tl (tl (tl l))")
       (auto simp: lit_at_Cons lit_at_Nil js_def toUpperCase_def char_eq_def F_i_def upperChar_def)
  have b: "lit_at F_i l 0 (js ''1c'') \<and> length l = 2 \<longleftrightarrow> toUpperCase l = js ''1C''"
    by (cases l rule: list.exhaust; cases "tl l"; cases "tl (tl l)")
       (auto simp: lit_at_Cons lit_at_Nil js_def toUpperCase_def char_eq_def F_i_def upperChar_def)
  have l3: "length (js ''bsl'') = 3" and l2: "length (js ''1c'') = 2" by (simp_all add: js_def)
  have "re_test F_i re_lang l \<longleftrightarrow>
      (lit_at F_i l 0 (js ''bsl'') \<and> length l = 3) \<or> (lit_at F_i l 0 (js ''1c'') \<and> length l = 2)"
    unfolding re_test_def re_lang_def
    by (simp add: find_from_Bol F_i_def rm_lit l3 l2 split: list.splits) 
  moreover have "toUpperCase l = js ''BSL'' \<or> toUpperCase l = js ''1C'' \<Longrightarrow> l \<noteq> []"
    by (auto simp: toUpperCase_def js_def)
  ultimately show ?thesis
    using a b by (auto simp: force_def)
qed


lemma force_iff: "force lang \<longleftrightarrow> lang_is_bsl lang"
  by (cases lang) (simp_all add: force_Some lang_is_bsl_def, simp add: force_def)

text \<open>
  C10. \<open>highlight\<close> returns \<open>null\<close> exactly when \<open>lang\<close> is not \<open>bsl\<close> or \<open>1c\<close> in any
  casing and the detector is negative; with \<open>lang\<close> one of \<open>bsl\<close>, \<open>1c\<close> it returns the
  highlighted text, whatever the code.
\<close>

theorem highlight_null_iff:
  "(highlight V code lang = None \<longleftrightarrow> \<not> lang_is_bsl lang \<and> \<not> likelyBSL code)
   \<and> (lang = Some (js ''bsl'') \<or> lang = Some (js ''1c'') \<longrightarrow>
        highlight V code lang = Some (highlightBSL V code))"
proof -
  have "lang = Some (js ''bsl'') \<or> lang = Some (js ''1c'') \<Longrightarrow> lang_is_bsl lang"
    by (auto simp: lang_is_bsl_def toUpperCase_def js_def upperChar_def)
  then show ?thesis
    by (auto simp: highlight_def force_iff)
qed

theorem highlight_null_iff_witness:
  "(Some (js ''bsl'') = Some (js ''bsl'') \<or> Some (js ''bsl'') = Some (js ''1c''))
   \<and> highlight sample_vocab [] (Some (js ''bsl'')) = Some (highlightBSL sample_vocab [])
   \<and> highlight sample_vocab [] (Some (js ''bsl'')) \<noteq> None
   \<and> highlight sample_vocab (js ''plain text'') None = None"
proof -
  have n: "\<not> likelyBSL (js ''plain text'')" by code_simp
  have "\<not> lang_is_bsl None" by (simp add: lang_is_bsl_def)
  with n highlight_null_iff [of sample_vocab "js ''plain text''" None]
  have "highlight sample_vocab (js ''plain text'') None = None" by simp
  with highlight_null_iff [of sample_vocab "[]" "Some (js ''bsl'')"] show ?thesis by simp
qed

section \<open>Properties of the XML tokenizer\<close>

text \<open>
  When the attribute loop is entered at an index where its condition holds and its body
  leaves \<open>j\<close> where it is, the loop never returns.
\<close>

lemma attr_loop_stuck_aux:
  assumes "attr_loop code st = Some r"
  shows "\<not> (attr_cond code (fst st) \<and> fst (attr_step code (fst st)) = fst st)"
proof (rule attr_loop.raw_induct
    [where P = "\<lambda>c s r. \<not> (attr_cond c (fst s) \<and> fst (attr_step c (fst s)) = fst s)",
      OF _ assms])
  fix f c s y
  assume IH: "\<And>s b y. f s b = Some y \<Longrightarrow>
      \<not> (attr_cond s (fst b) \<and> fst (attr_step s (fst b)) = fst b)"
    and eq: "(if attr_cond c (fst s)
              then f c (fst (attr_step c (fst s)), snd s @ snd (attr_step c (fst s)))
              else Some s) = Some y"
  show "\<not> (attr_cond c (fst s) \<and> fst (attr_step c (fst s)) = fst s)"
  proof
    assume a: "attr_cond c (fst s) \<and> fst (attr_step c (fst s)) = fst s"
    with eq have "f c (fst (attr_step c (fst s)), snd s @ snd (attr_step c (fst s))) = Some y"
      by simp
    from IH [OF this] a show False by simp
  qed
qed

lemma attr_loop_stuck:
  "attr_cond code j \<Longrightarrow> fst (attr_step code j) = j \<Longrightarrow> attr_loop code (j, out) = None"
  using attr_loop_stuck_aux [of code "(j, out)"] by (cases "attr_loop code (j, out)") auto

lemma xml_tag_stuck:
  "at code (i + 1) \<noteq> Some c_slash \<Longrightarrow>
   skip_ws code (scan_while isNameChar code (i + 1)) = (j, ws) \<Longrightarrow>
   attr_cond code j \<Longrightarrow> fst (attr_step code j) = j \<Longrightarrow> xml_tag code i = None"
  by (simp add: xml_tag_def Let_def attr_loop_stuck)

lemma xml_step_tag:
  "code ! i = c_lt \<Longrightarrow> slice code i (i + 4) \<noteq> js ''<!--'' \<Longrightarrow>
   slice code i (i + 9) \<noteq> js ''<![CDATA['' \<Longrightarrow>
   toUpperCase (slice code i (i + 9)) \<noteq> js ''<!DOCTYPE'' \<Longrightarrow>
   at code (i + 1) \<noteq> Some 63 \<Longrightarrow>
   (case at code (i + 1) of None \<Rightarrow> True | Some c \<Rightarrow> isLatin c \<or> c = c_slash) \<Longrightarrow>
   xml_step code i = xml_tag code i"
  by (simp add: xml_step_def)

lemma xml_loop_None:
  "i < length code \<Longrightarrow> xml_step code i = None \<Longrightarrow> xml_loop code i = None"
  by (subst xml_loop.simps) simp

text \<open>
  An input that starts with a tag whose attribute loop is entered at \<open>j\<close>, where the
  loop's condition holds and its body does not advance.
\<close>

lemma stuck_from_start:
  assumes "0 < length code" "code ! 0 = c_lt" "slice code 0 (0 + 4) \<noteq> js ''<!--''"
    "slice code 0 (0 + 9) \<noteq> js ''<![CDATA[''"
    "toUpperCase (slice code 0 (0 + 9)) \<noteq> js ''<!DOCTYPE''"
    "at code (0 + 1) \<noteq> Some 63"
    "(case at code (0 + 1) of None \<Rightarrow> True | Some c \<Rightarrow> isLatin c \<or> c = c_slash)"
    "at code (0 + 1) \<noteq> Some c_slash"
    "skip_ws code (scan_while isNameChar code (0 + 1)) = (j, ws)"
    "attr_cond code j" "fst (attr_step code j) = j"
  shows "xml_loop code 0 = None"
proof -
  have "xml_step code 0 = xml_tag code 0"
    by (rule xml_step_tag) (fact assms)+
  also have "\<dots> = None"
    by (rule xml_tag_stuck) (fact assms)+
  finally show ?thesis
    by (rule xml_loop_None [OF assms(1)])
qed

text \<open>
  C3. The scan of \<open>highlightXML\<close> is not total. On the input \<open><a "\<close> (a tag whose
  interior has a character that is no name character, white space, \<open>=\<close> or \<open>>\<close>) the
  attribute loop is entered at index 3 and never advances: \<open>highlightXML\<close> does not
  return.
\<close>

theorem highlightXML_diverges_on_malformed_tag:
  "highlightXML (js ''<a '' @ [c_dquote]) = None"
proof -
  have "xml_loop (js ''<a '' @ [c_dquote]) 0 = None"
    by (rule stuck_from_start [where j = 3 and ws = "[(2, None, [c_space])]"]; code_simp)
  then show ?thesis
    by (simp add: highlightXML_def xml_spans_def)
qed

text \<open>
  C2. The spans of \<open>highlightBSL\<close> cover every input (\<open>highlightBSL_covers_input\<close>),
  but \<open>highlightXML\<close> emits no spans at all for the input \<open><a/b>\<close>: its attribute loop
  is entered at the \<open>/\<close> and never advances, so no list of spans is returned.
\<close>

theorem highlightXML_no_spans_for_slash_in_tag:
  "\<not> (\<exists>sps. xml_spans (js ''<a/b>'') = Some sps \<and> spans_text sps = js ''<a/b>'')"
proof -
  have "xml_loop (js ''<a/b>'') 0 = None"
    by (rule stuck_from_start [where j = 2 and ws = "[]"]; code_simp)
  then show ?thesis
    by (simp add: xml_spans_def)
qed

end
